theory Spec2Isabelle
  imports Complex_Main
begin

section \<open>The browser store (frontend/src/stores/browserStore.ts)\<close>

text \<open>
  \<^verbatim>\<open>BrowserStatus = 'idle' | 'starting' | 'running' | 'stopped' | 'error'\<close> is a union of
  string literals; the store keeps three data fields beside its actions. The fields carry
  the prefix \<open>bs_\<close> because the test-run page has state variables of the same names.
\<close>

datatype BrowserStatus = BIdle | BStarting | BRunning | BStopped | BError

record BrowserState =
  bs_status :: BrowserStatus
  bs_screenshot :: "string option"
  bs_currentUrl :: "string option"

text \<open>The object passed to \<^verbatim>\<open>create\<close>: the state the store starts in.\<close>

definition useBrowserStore :: BrowserState where
  "useBrowserStore = \<lparr>bs_status = BIdle, bs_screenshot = None, bs_currentUrl = None\<rparr>"

text \<open>
  Each action calls zustand's \<^verbatim>\<open>set\<close> with a partial state, which is merged into the
  current one: the named fields are overwritten, the others kept.
\<close>

definition setStatus :: "BrowserStatus \<Rightarrow> BrowserState \<Rightarrow> BrowserState" where
  "setStatus s st = st\<lparr>bs_status := s\<rparr>"

definition setScreenshot :: "string \<Rightarrow> BrowserState \<Rightarrow> BrowserState" where
  "setScreenshot img st = st\<lparr>bs_screenshot := Some img\<rparr>"

definition setCurrentUrl :: "string \<Rightarrow> BrowserState \<Rightarrow> BrowserState" where
  "setCurrentUrl url st = st\<lparr>bs_currentUrl := Some url\<rparr>"

definition reset :: "BrowserState \<Rightarrow> BrowserState" where
  "reset st = st\<lparr>bs_status := BIdle, bs_screenshot := None, bs_currentUrl := None\<rparr>"

text \<open>A call of one of the store's actions, and a finite sequence of calls.\<close>

datatype store_call =
    SetStatus BrowserStatus
  | SetScreenshot string
  | SetCurrentUrl string
  | Reset

fun store_step :: "store_call \<Rightarrow> BrowserState \<Rightarrow> BrowserState" where
  "store_step (SetStatus s) st = setStatus s st"
| "store_step (SetScreenshot img) st = setScreenshot img st"
| "store_step (SetCurrentUrl url) st = setCurrentUrl url st"
| "store_step Reset st = reset st"

fun store_run :: "store_call list \<Rightarrow> BrowserState \<Rightarrow> BrowserState" where
  "store_run [] st = st"
| "store_run (c # cs) st = store_run cs (store_step c st)"

section \<open>Data of the test-run page (TestRunPage in frontend/src/app/layout.tsx)\<close>

text \<open>
  The interfaces of the page. An optional field (\<^verbatim>\<open>id?: string\<close>) is an \<open>option\<close>; a
  JavaScript number that is an index is an \<open>int\<close>, any other number a \<open>real\<close>. The
  fields of \<^verbatim>\<open>StepStatus\<close>, \<^verbatim>\<open>ApprovalRequest\<close> and \<^verbatim>\<open>PerformanceMetrics\<close> carry the
  prefixes \<open>ss_\<close>, \<open>ar_\<close> and \<open>pm_\<close>: several interfaces share field names.
\<close>

datatype step_status =
  SPending | SRunning | SPassed | SFailed | SSkipped | SHealing | SHealed | SWaitingApproval

record StepStatus =
  ss_index :: int
  ss_id :: "string option"
  ss_type :: string
  ss_status :: step_status
  ss_selector :: "string option"
  ss_value :: "string option"
  ss_error :: "string option"
  ss_original_selector :: "string option"

record ApprovalRequest =
  ar_step_index :: int
  ar_original_selector :: string
  ar_suggested_selector :: string
  ar_confidence :: real
  ar_reasoning :: "string option"

datatype rating = Good | NeedsImprovement | Poor

record Ratings =
  r_lcp :: rating
  r_fcp :: rating
  r_cls :: rating
  r_ttfb :: rating

record PerformanceMetrics =
  pm_step_index :: int
  pm_url :: string
  pm_ttfb :: real
  pm_fcp :: real
  pm_lcp :: real
  pm_dom_content_loaded :: real
  pm_load :: real
  pm_cls :: real
  pm_ratings :: Ratings

text \<open>\<^verbatim>\<open>HealingSuggestion\<close> (components/healing/HealingDiff); \<open>hs_context\<close> is its field
  \<^verbatim>\<open>context?: {url, error}\<close>.\<close>

record HealingSuggestion =
  step_index :: int
  original_selector :: string
  suggested_selector :: string
  confidence :: real
  reasoning :: string
  alternative_selectors :: "string list option"
  auto_approved :: bool
  hs_context :: "(string \<times> string) option"

text \<open>\<^verbatim>\<open>HealingSettings\<close> of the settings page: the healing policy as the front end sees it.\<close>

record HealingSettings =
  enabled :: bool
  auto_approve :: bool
  auto_approve_threshold :: real
  mode :: string
  provider :: string

text \<open>The run-level status: \<^verbatim>\<open>useState<'idle' | 'running' | 'passed' | 'failed'>('idle')\<close>.
  The values are string literals; \<open>run_status_str\<close> gives the string of each.\<close>

datatype run_status = RIdle | RRunning | RPassed | RFailed

fun run_status_str :: "run_status \<Rightarrow> string" where
  "run_status_str RIdle = ''idle''"
| "run_status_str RRunning = ''running''"
| "run_status_str RPassed = ''passed''"
| "run_status_str RFailed = ''failed''"

text \<open>
  What the page reads of a \<^verbatim>\<open>TestResponse\<close>: the steps of \<^verbatim>\<open>latest_version?.steps\<close>
  (\<open>None\<close> when there is no latest version), each with id, type, selector and value.
\<close>

record ApiStep =
  as_id :: string
  as_type :: string
  as_selector :: "string option"
  as_value :: "string option"

record TestResponse =
  tr_name :: string
  tr_target_url :: string
  tr_steps :: "ApiStep list option"

text \<open>The socket object \<^verbatim>\<open>new TestRunnerWebSocket(testId)\<close>, named by its argument.\<close>

datatype TestRunnerWebSocket = TestRunnerWebSocket string

text \<open>
  What the page does to the outside world, in the order it does it: socket calls and
  calls of the REST client. \<open>WsSend t approved\<close> is \<^verbatim>\<open>ws.send(t, { approved })\<close>.
\<close>

datatype effect =
    WsConnect string
  | WsDisconnect
  | WsSend string bool
  | ApproveSuggestionForStep string string string
  | ApiDeleteStep string string
  | ApiGetTest string

text \<open>
  The state of the page: its route parameter, its \<^verbatim>\<open>useState\<close> variables under their
  own names, and what the environment holds for it:
  \<^item> \<open>effects\<close>: the calls made so far;
  \<^item> \<open>socket_open\<close>: \<^verbatim>\<open>connect()\<close> has returned and \<^verbatim>\<open>disconnect()\<close> has not been called
    since;
  \<^item> \<open>registered\<close>: the \<^verbatim>\<open>socket.on\<close> calls of \<^verbatim>\<open>startRun\<close> have been made (the code never
    removes a handler);
  \<^item> the awaited calls that have not settled yet: \<open>loading\<close> (the \<^verbatim>\<open>testsApi.get\<close> of the
    loader), \<open>connecting\<close> (calls of \<^verbatim>\<open>socket.connect()\<close>), \<open>deleting\<close> (calls of
    \<^verbatim>\<open>testsApi.deleteStep\<close>) and \<open>refreshing\<close> (calls of \<^verbatim>\<open>testsApi.get\<close> made by
    \<^verbatim>\<open>deleteStep\<close>).
  The sockets of successive runs are not told apart.
\<close>

record TestRunPage =
  testId :: string
  test :: "TestResponse option"
  screenshot :: "string option"
  stepStatuses :: "StepStatus list"
  runStatus :: run_status
  ws :: "TestRunnerWebSocket option"
  error :: "string option"
  metrics :: "PerformanceMetrics list"
  showMetrics :: bool
  healingSuggestions :: "HealingSuggestion list"
  showHealing :: bool
  isHealingProcessing :: bool
  pendingApproval :: "ApprovalRequest option"
  socket_open :: bool
  effects :: "effect list"
  registered :: bool
  loading :: bool
  connecting :: nat
  deleting :: nat
  refreshing :: nat

text \<open>The page after its first render: the loader effect has called \<^verbatim>\<open>testsApi.get\<close>.\<close>

definition initial_page :: "string \<Rightarrow> TestRunPage" where
  "initial_page tid =
     \<lparr>testId = tid, test = None, screenshot = None, stepStatuses = [], runStatus = RIdle,
      ws = None, error = None, metrics = [], showMetrics = False, healingSuggestions = [],
      showHealing = False, isHealingProcessing = False, pendingApproval = None,
      socket_open = False, effects = [ApiGetTest tid], registered = False, loading = True,
      connecting = 0, deleting = 0, refreshing = 0\<rparr>"

text \<open>
  \<^verbatim>\<open>steps.map((s, i) => ({index: i, id: s.id, type: s.type, status: 'pending',
  selector: s.selector, value: s.value}))\<close>, used by the loader and by \<^verbatim>\<open>deleteStep\<close>.
\<close>

definition to_step_status :: "nat \<times> ApiStep \<Rightarrow> StepStatus" where
  "to_step_status p =
     \<lparr>ss_index = int (fst p), ss_id = Some (as_id (snd p)), ss_type = as_type (snd p),
      ss_status = SPending, ss_selector = as_selector (snd p), ss_value = as_value (snd p),
      ss_error = None, ss_original_selector = None\<rparr>"

definition to_step_statuses :: "ApiStep list \<Rightarrow> StepStatus list" where
  "to_step_statuses steps = map to_step_status (enumerate 0 steps)"

text \<open>
  The loader effect \<^verbatim>\<open>loadTest\<close>, from the point where its \<^verbatim>\<open>testsApi.get\<close> settles with
  \<open>Some data\<close> or throws (\<open>None\<close>). The effect depends on the test id and on the
  authentication, which do not change here: it runs once.
\<close>

definition loadTest :: "TestResponse option \<Rightarrow> TestRunPage \<Rightarrow> TestRunPage" where
  "loadTest res st =
     (if \<not> loading st then st
      else
        (case res of
           None \<Rightarrow> st\<lparr>error := Some ''Failed to load test'', loading := False\<rparr>
         | Some data \<Rightarrow>
             st\<lparr>test := Some data,
                stepStatuses := (case tr_steps data of
                                   Some steps \<Rightarrow> to_step_statuses steps
                                 | None \<Rightarrow> stepStatuses st),
                loading := False\<rparr>))"

section \<open>Operations of the test-run page\<close>

text \<open>
  A socket handler is one transition of the page state: the state updates it queues are
  applied in order, functional updates (\<^verbatim>\<open>setX((prev) => ...)\<close>) to the current value.
  A callback that awaits a call is cut at the \<^verbatim>\<open>await\<close> when it reads the state before it
  and writes after it (\<^verbatim>\<open>startRun\<close>, \<^verbatim>\<open>deleteStep\<close>): the part up to the \<^verbatim>\<open>await\<close> is one
  transition, the part from the answer on another one, and anything may happen in
  between. \<^verbatim>\<open>handleApproveHealing\<close> writes after its \<^verbatim>\<open>await\<close> by functional updates only,
  from values fixed before it; it is one transition, taken when its call settles. The
  page is the one of an authenticated user (otherwise it renders nothing and loads
  nothing).
\<close>

subsection \<open>Starting and stopping a run\<close>

text \<open>
  \<^verbatim>\<open>startRun\<close> up to \<^verbatim>\<open>await socket.connect()\<close>: nothing without a loaded test; otherwise
  the run state is reset and the socket is created and asked to connect.
\<close>

definition startRun :: "TestRunPage \<Rightarrow> TestRunPage" where
  "startRun st =
     (if test st = None then st
      else st\<lparr>runStatus := RRunning, error := None, metrics := [],
              healingSuggestions := [], showHealing := False,
              stepStatuses := map (\<lambda>s. s\<lparr>ss_status := SPending\<rparr>) (stepStatuses st),
              effects := effects st @ [WsConnect (testId st)],
              connecting := Suc (connecting st)\<rparr>)"

text \<open>
  \<^verbatim>\<open>startRun\<close> from the answer of \<^verbatim>\<open>socket.connect()\<close> on: when it returned
  (\<open>connect_ok\<close>), \<^verbatim>\<open>setWs(socket)\<close> and the seven \<^verbatim>\<open>socket.on\<close> calls; when it threw, the
  \<^verbatim>\<open>catch\<close> branch.
\<close>

definition startRun_connected :: "bool \<Rightarrow> TestRunPage \<Rightarrow> TestRunPage" where
  "startRun_connected connect_ok st =
     (if connecting st = 0 then st
      else if connect_ok
      then st\<lparr>connecting := connecting st - 1,
              ws := Some (TestRunnerWebSocket (testId st)), socket_open := True,
              registered := True\<rparr>
      else st\<lparr>connecting := connecting st - 1,
              runStatus := RFailed, error := Some ''Failed to start test run''\<rparr>)"

text \<open>\<^verbatim>\<open>stopRun\<close>: \<^verbatim>\<open>ws?.disconnect(); setWs(null); setRunStatus('idle')\<close>.\<close>

definition stopRun :: "TestRunPage \<Rightarrow> TestRunPage" where
  "stopRun st =
     (case ws st of
        None \<Rightarrow> st\<lparr>ws := None, runStatus := RIdle\<rparr>
      | Some _ \<Rightarrow> st\<lparr>socket_open := False, effects := effects st @ [WsDisconnect],
                     ws := None, runStatus := RIdle\<rparr>)"

subsection \<open>The socket handlers registered by startRun\<close>

definition on_screenshot :: "string \<Rightarrow> TestRunPage \<Rightarrow> TestRunPage" where
  "on_screenshot img st = st\<lparr>screenshot := Some img\<rparr>"

text \<open>The payload of a step message is read as a \<^verbatim>\<open>StepStatus\<close>; the handler uses its
  index, status and error.\<close>

definition on_step :: "StepStatus \<Rightarrow> TestRunPage \<Rightarrow> TestRunPage" where
  "on_step step st =
     st\<lparr>stepStatuses :=
          map (\<lambda>s. if ss_index s = ss_index step
                    then s\<lparr>ss_status := ss_status step, ss_error := ss_error step\<rparr>
                    else s)
              (stepStatuses st)\<rparr>"

definition on_metrics :: "PerformanceMetrics \<Rightarrow> TestRunPage \<Rightarrow> TestRunPage" where
  "on_metrics metricsData st = st\<lparr>metrics := metrics st @ [metricsData]\<rparr>"

definition on_healing :: "HealingSuggestion \<Rightarrow> TestRunPage \<Rightarrow> TestRunPage" where
  "on_healing healingData st =
     (let st1 = st\<lparr>healingSuggestions := healingSuggestions st @ [healingData]\<rparr>
      in if \<not> auto_approved healingData then st1\<lparr>showHealing := True\<rparr> else st1)"

definition on_approval_request :: "ApprovalRequest \<Rightarrow> TestRunPage \<Rightarrow> TestRunPage" where
  "on_approval_request approvalData st = st\<lparr>pendingApproval := Some approvalData\<rparr>"

definition on_complete :: "bool \<Rightarrow> string \<Rightarrow> TestRunPage \<Rightarrow> TestRunPage" where
  "on_complete success message st =
     st\<lparr>runStatus := (if success then RPassed else RFailed),
        error := (if \<not> success then Some message else error st),
        socket_open := False, effects := effects st @ [WsDisconnect],
        ws := None\<rparr>"

definition on_error :: "string \<Rightarrow> TestRunPage \<Rightarrow> TestRunPage" where
  "on_error message st =
     st\<lparr>runStatus := RFailed, error := Some message,
        socket_open := False, effects := effects st @ [WsDisconnect],
        ws := None\<rparr>"

text \<open>
  A message of the stream, with the payload its handler reads; \<open>EvOther t\<close> is a message
  of a type \<open>t\<close> for which \<^verbatim>\<open>startRun\<close> registers no handler.
\<close>

datatype ws_event =
    EvScreenshot string
  | EvStep StepStatus
  | EvMetrics PerformanceMetrics
  | EvHealing HealingSuggestion
  | EvApprovalRequest ApprovalRequest
  | EvComplete bool string
  | EvError string
  | EvOther string

fun event_type :: "ws_event \<Rightarrow> string" where
  "event_type (EvScreenshot _) = ''screenshot''"
| "event_type (EvStep _) = ''step''"
| "event_type (EvMetrics _) = ''metrics''"
| "event_type (EvHealing _) = ''healing''"
| "event_type (EvApprovalRequest _) = ''approval_request''"
| "event_type (EvComplete _ _) = ''complete''"
| "event_type (EvError _) = ''error''"
| "event_type (EvOther t) = t"

text \<open>
  The \<^verbatim>\<open>socket.on(type, handler)\<close> calls of \<^verbatim>\<open>startRun\<close>, in the order of the source: the
  message type and the handler registered for it. Each handler reads its argument as
  the payload of its own type (\<^verbatim>\<open>data as StepStatus\<close>); the protocol sends it no other.
\<close>

definition startRun_handlers :: "(string \<times> (ws_event \<Rightarrow> TestRunPage \<Rightarrow> TestRunPage)) list" where
  "startRun_handlers =
     [(''screenshot'',
         \<lambda>data st. case data of EvScreenshot img \<Rightarrow> on_screenshot img st | _ \<Rightarrow> st),
      (''step'',
         \<lambda>data st. case data of EvStep step \<Rightarrow> on_step step st | _ \<Rightarrow> st),
      (''metrics'',
         \<lambda>data st. case data of EvMetrics metricsData \<Rightarrow> on_metrics metricsData st | _ \<Rightarrow> st),
      (''healing'',
         \<lambda>data st. case data of EvHealing healingData \<Rightarrow> on_healing healingData st | _ \<Rightarrow> st),
      (''approval_request'',
         \<lambda>data st. case data of EvApprovalRequest approvalData \<Rightarrow>
                                   on_approval_request approvalData st
                               | _ \<Rightarrow> st),
      (''complete'',
         \<lambda>data st. case data of EvComplete success message \<Rightarrow> on_complete success message st
                               | _ \<Rightarrow> st),
      (''error'',
         \<lambda>data st. case data of EvError message \<Rightarrow> on_error message st | _ \<Rightarrow> st)]"

definition startRun_handler_types :: "string list" where
  "startRun_handler_types = map fst startRun_handlers"

text \<open>
  The class \<^verbatim>\<open>TestRunnerWebSocket\<close> (module lib/api) is not among the sources. Its
  \<^verbatim>\<open>on(type, handler)\<close> is read as the dispatch by event name that the specification
  describes (section 9): a message goes to the handler registered for its type, and is
  dropped when there is none.
\<close>

definition on_event :: "ws_event \<Rightarrow> TestRunPage \<Rightarrow> TestRunPage" where
  "on_event ev st =
     (case map_of startRun_handlers (event_type ev) of
        None \<Rightarrow> st
      | Some handler \<Rightarrow> handler ev st)"

text \<open>
  A message handed over by a socket reaches the page once the handlers are registered.
  What a socket does with a message after \<^verbatim>\<open>disconnect()\<close> is not in the sources, and no
  handler tests the state of the run or of the connection: here a message may be
  handed over at any time, so that what holds for all sequences of actions holds
  whatever the socket does.
\<close>

definition deliver :: "ws_event \<Rightarrow> TestRunPage \<Rightarrow> TestRunPage" where
  "deliver ev st = (if registered st then on_event ev st else st)"

subsection \<open>The callbacks of the page\<close>

text \<open>\<^verbatim>\<open>handleApprovalResponse\<close>: sends only with a socket and a pending request.\<close>

definition handleApprovalResponse :: "bool \<Rightarrow> TestRunPage \<Rightarrow> TestRunPage" where
  "handleApprovalResponse approved st =
     (if ws st \<noteq> None \<and> pendingApproval st \<noteq> None
      then st\<lparr>effects := effects st @ [WsSend ''approval_response'' approved],
              pendingApproval := None\<rparr>
      else st)"

text \<open>
  \<^verbatim>\<open>deleteStep\<close> up to \<^verbatim>\<open>await testsApi.deleteStep(testId, stepId)\<close>: it returns at once
  without a test or while the run is in progress, and makes the call otherwise.
\<close>

definition deleteStep :: "string \<Rightarrow> TestRunPage \<Rightarrow> TestRunPage" where
  "deleteStep stepId st =
     (if test st = None \<or> runStatus st = RRunning then st
      else st\<lparr>effects := effects st @ [ApiDeleteStep (testId st) stepId],
              deleting := Suc (deleting st)\<rparr>)"

text \<open>
  \<^verbatim>\<open>deleteStep\<close> from the answer of \<^verbatim>\<open>testsApi.deleteStep\<close> to \<^verbatim>\<open>await testsApi.get(testId)\<close>:
  when the call returned (\<open>del_ok\<close>) the test is fetched again; when it threw, the
  \<^verbatim>\<open>catch\<close> branch sets the error message.
\<close>

definition deleteStep_deleted :: "bool \<Rightarrow> TestRunPage \<Rightarrow> TestRunPage" where
  "deleteStep_deleted del_ok st =
     (if deleting st = 0 then st
      else if del_ok
      then st\<lparr>deleting := deleting st - 1,
              effects := effects st @ [ApiGetTest (testId st)],
              refreshing := Suc (refreshing st)\<rparr>
      else st\<lparr>deleting := deleting st - 1, error := Some ''Failed to delete step''\<rparr>)"

text \<open>
  \<^verbatim>\<open>deleteStep\<close> from the answer of \<^verbatim>\<open>testsApi.get\<close> on (\<open>get_res\<close>: the test, \<open>None\<close> when
  the call threw): \<^verbatim>\<open>setTest(data)\<close> and, when the test has steps, the step-status list
  built anew. Neither the run status nor anything else is looked at again.
\<close>

definition deleteStep_fetched :: "TestResponse option \<Rightarrow> TestRunPage \<Rightarrow> TestRunPage" where
  "deleteStep_fetched get_res st =
     (if refreshing st = 0 then st
      else
        (case get_res of
           None \<Rightarrow> st\<lparr>refreshing := refreshing st - 1, error := Some ''Failed to delete step''\<rparr>
         | Some data \<Rightarrow>
             st\<lparr>refreshing := refreshing st - 1,
                test := Some data,
                stepStatuses := (case tr_steps data of
                                   Some steps \<Rightarrow> to_step_statuses steps
                                 | None \<Rightarrow> stepStatuses st)\<rparr>))"

text \<open>\<^verbatim>\<open>xs[i]\<close> for a number \<open>i\<close>: \<^verbatim>\<open>undefined\<close> outside \<open>0 .. length - 1\<close>.\<close>

definition js_index :: "'a list \<Rightarrow> int \<Rightarrow> 'a option" where
  "js_index xs i = (if 0 \<le> i \<and> i < int (length xs) then Some (xs ! nat i) else None)"

text \<open>
  \<^verbatim>\<open>healingApi.approveSuggestionForStep(testId, stepId, selector)\<close>: \<open>True\<close> when the call
  returns, \<open>False\<close> when it throws.
\<close>

type_synonym healing_api = "string \<Rightarrow> string \<Rightarrow> string \<Rightarrow> bool"

text \<open>
  \<^verbatim>\<open>handleApproveHealing\<close>. The callback closes over \<^verbatim>\<open>stepStatuses\<close> (its dependency
  list is \<^verbatim>\<open>[testId, stepStatuses]\<close>): \<open>captured\<close> is the list it was created with, read
  for \<^verbatim>\<open>stepStatuses[suggestion.step_index]\<close>; the two \<^verbatim>\<open>set...((prev) => ...)\<close> updates
  work on the current lists. \<^verbatim>\<open>step?.id\<close> is truthy for a non-empty string. The
  \<^verbatim>\<open>finally\<close> branch clears \<^verbatim>\<open>isHealingProcessing\<close> on every path.
\<close>

definition handleApproveHealing ::
  "healing_api \<Rightarrow> StepStatus list \<Rightarrow> HealingSuggestion \<Rightarrow> TestRunPage \<Rightarrow> TestRunPage" where
  "handleApproveHealing api captured suggestion st =
     (case js_index captured (step_index suggestion) of
        None \<Rightarrow> st\<lparr>isHealingProcessing := False\<rparr>
      | Some step \<Rightarrow>
          (case ss_id step of
             None \<Rightarrow> st\<lparr>isHealingProcessing := False\<rparr>
           | Some sid \<Rightarrow>
               if sid = [] then st\<lparr>isHealingProcessing := False\<rparr>
               else
                 let st1 = st\<lparr>effects := effects st @
                       [ApproveSuggestionForStep (testId st) sid (suggested_selector suggestion)]\<rparr>
                 in if api (testId st) sid (suggested_selector suggestion)
                    then st1\<lparr>healingSuggestions :=
                               map (\<lambda>s. if step_index s = step_index suggestion
                                         then s\<lparr>auto_approved := True\<rparr> else s)
                                   (healingSuggestions st),
                             stepStatuses :=
                               map (\<lambda>s. if ss_index s = step_index suggestion
                                         then s\<lparr>ss_selector := Some (suggested_selector suggestion),
                                                ss_original_selector := Some (original_selector suggestion)\<rparr>
                                         else s)
                                   (stepStatuses st),
                             isHealingProcessing := False\<rparr>
                    else st1\<lparr>error := Some ''Failed to apply healing suggestion'',
                             isHealingProcessing := False\<rparr>))"

definition handleRejectHealing :: "HealingSuggestion \<Rightarrow> TestRunPage \<Rightarrow> TestRunPage" where
  "handleRejectHealing suggestion st =
     st\<lparr>healingSuggestions :=
          filter (\<lambda>s. step_index s \<noteq> step_index suggestion) (healingSuggestions st)\<rparr>"

text \<open>
  \<^verbatim>\<open>handleApproveAllHealing\<close>: the pending suggestions of the rendered state, approved
  one after the other by the \<^verbatim>\<open>handleApproveHealing\<close> of that same render.
\<close>

definition handleApproveAllHealing :: "healing_api \<Rightarrow> TestRunPage \<Rightarrow> TestRunPage" where
  "handleApproveAllHealing api st =
     fold (handleApproveHealing api (stepStatuses st))
          (filter (\<lambda>s. \<not> auto_approved s) (healingSuggestions st)) st"

text \<open>The three tab buttons.\<close>

datatype tab = StepsTab | PerformanceTab | HealingTab

fun selectTab :: "tab \<Rightarrow> TestRunPage \<Rightarrow> TestRunPage" where
  "selectTab StepsTab st = st\<lparr>showMetrics := False, showHealing := False\<rparr>"
| "selectTab PerformanceTab st = st\<lparr>showMetrics := True, showHealing := False\<rparr>"
| "selectTab HealingTab st = st\<lparr>showHealing := True, showMetrics := False\<rparr>"

text \<open>
  What the steps view shows under step \<open>i\<close>: \<^verbatim>\<open>metrics.find((m) => m.step_index === i)\<close>,
  rendered when \<^verbatim>\<open>stepMetrics && step.type === 'navigate'\<close>.
\<close>

definition inline_metrics :: "TestRunPage \<Rightarrow> nat \<Rightarrow> PerformanceMetrics option" where
  "inline_metrics st i =
     (if i < length (stepStatuses st)
      then (case find (\<lambda>m. pm_step_index m = int i) (metrics st) of
              None \<Rightarrow> None
            | Some m \<Rightarrow> if ss_type (stepStatuses st ! i) = ''navigate'' then Some m else None)
      else None)"

subsection \<open>Everything that can happen to the page\<close>

text \<open>
  A callback started by the user, a message handed over by a socket, or the answer of an
  awaited call. \<open>Rerun\<close> is the button \<^verbatim>\<open>() => { setRunStatus('idle'); startRun(); }\<close>.
\<close>

datatype action =
    TestLoaded "TestResponse option"
  | StartRun
  | Rerun
  | Connected bool
  | Deliver ws_event
  | StopRun
  | ApprovalResponse bool
  | DeleteStep string
  | StepDeleted bool
  | TestFetched "TestResponse option"
  | ApproveHealing HealingSuggestion
  | RejectHealing HealingSuggestion
  | ApproveAllHealing
  | SelectTab tab

fun perform :: "healing_api \<Rightarrow> action \<Rightarrow> TestRunPage \<Rightarrow> TestRunPage" where
  "perform api (TestLoaded res) st = loadTest res st"
| "perform api StartRun st = startRun st"
| "perform api Rerun st = startRun (st\<lparr>runStatus := RIdle\<rparr>)"
| "perform api (Connected connect_ok) st = startRun_connected connect_ok st"
| "perform api (Deliver ev) st = deliver ev st"
| "perform api StopRun st = stopRun st"
| "perform api (ApprovalResponse approved) st = handleApprovalResponse approved st"
| "perform api (DeleteStep stepId) st = deleteStep stepId st"
| "perform api (StepDeleted del_ok) st = deleteStep_deleted del_ok st"
| "perform api (TestFetched get_res) st = deleteStep_fetched get_res st"
| "perform api (ApproveHealing sug) st = handleApproveHealing api (stepStatuses st) sug st"
| "perform api (RejectHealing sug) st = handleRejectHealing sug st"
| "perform api ApproveAllHealing st = handleApproveAllHealing api st"
| "perform api (SelectTab t) st = selectTab t st"

fun perform_all :: "healing_api \<Rightarrow> action list \<Rightarrow> TestRunPage \<Rightarrow> TestRunPage" where
  "perform_all api [] st = st"
| "perform_all api (a # as) st = perform_all api as (perform api a st)"

section \<open>Declared message types\<close>

text \<open>The union type \<^verbatim>\<open>WebSocketMessageType\<close> of the shared type declarations
  (\<^verbatim>\<open>types\<close>), in the order of the source.\<close>

definition WebSocketMessageType :: "string list" where
  "WebSocketMessageType =
     [''chat'', ''status'', ''screenshot'', ''action'', ''complete'', ''error'']"

text \<open>The eight message kinds in the words of the specification (section 6), to compare
  the two lists of the code with.\<close>

definition spec_message_types :: "string list" where
  "spec_message_types =
     [''status'', ''screenshot'', ''step'', ''metrics'', ''healing'', ''approval_request'',
      ''complete'', ''error'']"

section \<open>Notions used to state the properties\<close>

text \<open>
  Modelled from the spec: the decision rule of the healing coordinator, which runs on the
  server and is not among the sources:
  \<^verbatim>\<open>autoApproved = policy.enabled AND policy.autoApprove AND confidence >= policy.autoApproveThreshold\<close>.
  No operation of the page evaluates it; it is what claim C1 measures the flag against.
\<close>

definition decision_rule :: "HealingSettings \<Rightarrow> real \<Rightarrow> bool" where
  "decision_rule policy c =
     (enabled policy \<and> auto_approve policy \<and> auto_approve_threshold policy \<le> c)"

text \<open>The step id that passes the guard \<^verbatim>\<open>if (step?.id)\<close> of \<^verbatim>\<open>handleApproveHealing\<close>, if
  any: the id of the entry at position \<^verbatim>\<open>suggestion.step_index\<close>, when it is a non-empty
  string.\<close>

definition approve_target :: "StepStatus list \<Rightarrow> HealingSuggestion \<Rightarrow> string option" where
  "approve_target captured suggestion =
     (case js_index captured (step_index suggestion) of
        None \<Rightarrow> None
      | Some step \<Rightarrow>
          (case ss_id step of
             None \<Rightarrow> None
           | Some sid \<Rightarrow> if sid = [] then None else Some sid))"

text \<open>The entries of a step-status list carry their positions as indices, as the lists
  built by \<open>to_step_statuses\<close> do.\<close>

definition indexed :: "StepStatus list \<Rightarrow> bool" where
  "indexed xs = (map ss_index xs = map int [0..<length xs])"

text \<open>What identifies a step: its index, id, type and value.\<close>

definition step_identity :: "StepStatus \<Rightarrow> int \<times> string option \<times> string \<times> string option" where
  "step_identity s = (ss_index s, ss_id s, ss_type s, ss_value s)"

fun manual_approval :: "action \<Rightarrow> bool" where
  "manual_approval (ApproveHealing _) = True"
| "manual_approval ApproveAllHealing = True"
| "manual_approval _ = False"



fun is_metrics_message :: "action \<Rightarrow> bool" where
  "is_metrics_message (Deliver (EvMetrics _)) = True"
| "is_metrics_message _ = False"


section \<open>Example data: the login scenario of the specification\<close>

definition login_test :: TestResponse where
  "login_test =
     \<lparr>tr_name = ''login'', tr_target_url = ''/login'',
      tr_steps = Some
        [\<lparr>as_id = ''s1'', as_type = ''navigate'', as_selector = None,
          as_value = Some ''/login''\<rparr>,
         \<lparr>as_id = ''s2'', as_type = ''fill'', as_selector = Some ''#email'',
          as_value = Some ''a@b.com''\<rparr>,
         \<lparr>as_id = ''s3'', as_type = ''click'', as_selector = Some ''#submit'',
          as_value = None\<rparr>]\<rparr>"

definition loaded_page :: TestRunPage where
  "loaded_page = loadTest (Some login_test) (initial_page ''t1'')"

definition running_page :: TestRunPage where
  "running_page = startRun_connected True (startRun loaded_page)"

definition step_event :: "int \<Rightarrow> step_status \<Rightarrow> StepStatus" where
  "step_event i s =
     \<lparr>ss_index = i, ss_id = None, ss_type = [], ss_status = s, ss_selector = None,
      ss_value = None, ss_error = None, ss_original_selector = None\<rparr>"

definition signin_suggestion :: "real \<Rightarrow> bool \<Rightarrow> HealingSuggestion" where
  "signin_suggestion c flag =
     \<lparr>step_index = 2, original_selector = ''#submit'',
      suggested_selector = ''[data-testid=signin-btn]'', confidence = c,
      reasoning = ''renamed'', alternative_selectors = None, auto_approved = flag,
      hs_context = None\<rparr>"

definition login_policy :: HealingSettings where
  "login_policy =
     \<lparr>enabled = True, auto_approve = True, auto_approve_threshold = 85 / 100,
      mode = ''inline'', provider = ''default''\<rparr>"

definition signin_request :: ApprovalRequest where
  "signin_request =
     \<lparr>ar_step_index = 2, ar_original_selector = ''#submit'',
      ar_suggested_selector = ''[data-testid=signin-btn]'', ar_confidence = 1 / 2,
      ar_reasoning = None\<rparr>"

definition click_metrics :: PerformanceMetrics where
  "click_metrics =
     \<lparr>pm_step_index = 2, pm_url = ''/login'', pm_ttfb = 100, pm_fcp = 300, pm_lcp = 900,
      pm_dom_content_loaded = 500, pm_load = 1200, pm_cls = 0,
      pm_ratings = \<lparr>r_lcp = Good, r_fcp = Good, r_cls = Good, r_ttfb = Good\<rparr>\<rparr>"

definition api_ok :: healing_api where
  "api_ok tid sid sel = True"

definition api_down :: healing_api where
  "api_down tid sid sel = False"

text \<open>The login run with step 0 passed and step 1 in flight.\<close>

definition in_flight_page :: TestRunPage where
  "in_flight_page =
     perform_all api_ok
       [Deliver (EvStep (step_event 0 SRunning)), Deliver (EvStep (step_event 0 SPassed)),
        Deliver (EvStep (step_event 1 SRunning))]
       running_page"

text \<open>The login run with a pending suggestion of confidence 0.5 for step 2.\<close>

definition healing_page :: TestRunPage where
  "healing_page = deliver (EvHealing (signin_suggestion (1 / 2) False)) running_page"

text \<open>A second suggestion for the same step, with another replacement.\<close>

definition login_suggestion :: HealingSuggestion where
  "login_suggestion = (signin_suggestion (3 / 5) False)\<lparr>suggested_selector := ''#login''\<rparr>"

text \<open>The login test after its last step has been deleted.\<close>

definition shortened_test :: TestResponse where
  "shortened_test = login_test\<lparr>tr_steps := map_option butlast (tr_steps login_test)\<rparr>"

text \<open>Page timings reported for step 0, the navigate step.\<close>

definition navigate_metrics :: PerformanceMetrics where
  "navigate_metrics = click_metrics\<lparr>pm_step_index := 0\<rparr>"

section \<open>Auxiliary facts\<close>

subsection \<open>The browser store\<close>

lemma reset_is_initial: "reset st = useBrowserStore"
  by (simp add: reset_def useBrowserStore_def)

subsection \<open>Evaluating the example\<close>

text \<open>The dispatch, message type by message type.\<close>

lemma on_event_simps [simp]:
  "on_event (EvScreenshot img) st = on_screenshot img st"
  "on_event (EvStep step) st = on_step step st"
  "on_event (EvMetrics m) st = on_metrics m st"
  "on_event (EvHealing h) st = on_healing h st"
  "on_event (EvApprovalRequest a) st = on_approval_request a st"
  "on_event (EvComplete success message) st = on_complete success message st"
  "on_event (EvError message) st = on_error message st"
  by (simp_all add: on_event_def startRun_handlers_def)

lemma startRun_handler_types_eval:
  "startRun_handler_types =
     [''screenshot'', ''step'', ''metrics'', ''healing'', ''approval_request'',
      ''complete'', ''error'']"
  by (simp add: startRun_handler_types_def startRun_handlers_def)

lemma on_event_unhandled:
  "event_type ev \<notin> set startRun_handler_types \<Longrightarrow> on_event ev st = st"
proof -
  assume "event_type ev \<notin> set startRun_handler_types"
  then have "map_of startRun_handlers (event_type ev) = None"
    by (simp add: startRun_handler_types_def map_of_eq_None_iff)
  then show ?thesis by (simp add: on_event_def)
qed

text \<open>In the model a payload that is none of the seven is of no use to any handler.\<close>

lemma on_event_other [simp]: "on_event (EvOther t) st = st"
  by (simp add: on_event_def startRun_handlers_def)

lemmas handler_defs = deliver_def on_screenshot_def on_step_def on_metrics_def on_healing_def
  on_approval_request_def on_complete_def on_error_def

lemmas example_defs = step_event_def signin_suggestion_def login_suggestion_def
  login_policy_def signin_request_def click_metrics_def api_ok_def api_down_def

lemma running_page_eval:
  "running_page =
    \<lparr>testId = ''t1'', test = Some login_test, screenshot = None,
     stepStatuses =
      [\<lparr>ss_index = 0, ss_id = Some ''s1'', ss_type = ''navigate'',
          ss_status = SPending, ss_selector = None,
          ss_value = Some ''/login'', ss_error = None,
          ss_original_selector = None\<rparr>,
       \<lparr>ss_index = 1, ss_id = Some ''s2'', ss_type = ''fill'',
          ss_status = SPending, ss_selector = Some ''#email'',
          ss_value = Some ''a@b.com'', ss_error = None,
          ss_original_selector = None\<rparr>,
       \<lparr>ss_index = 2, ss_id = Some ''s3'', ss_type = ''click'',
          ss_status = SPending, ss_selector = Some ''#submit'',
          ss_value = None, ss_error = None, ss_original_selector = None\<rparr>],
    runStatus = RRunning, ws = Some (TestRunnerWebSocket ''t1''),
    error = None, metrics = [], showMetrics = False,
    healingSuggestions = [], showHealing = False,
    isHealingProcessing = False, pendingApproval = None, socket_open = True,
    effects = [ApiGetTest ''t1'', WsConnect ''t1''], registered = True, loading = False,
    connecting = 0, deleting = 0, refreshing = 0\<rparr>"
  by (simp add: running_page_def loaded_page_def startRun_def startRun_connected_def
      loadTest_def initial_page_def to_step_statuses_def to_step_status_def login_test_def)


subsection \<open>Approving a suggestion\<close>

lemma approve_cases:
  "handleApproveHealing api captured sug st =
     (case approve_target captured sug of
        None \<Rightarrow> st\<lparr>isHealingProcessing := False\<rparr>
      | Some sid \<Rightarrow>
          if api (testId st) sid (suggested_selector sug)
          then st\<lparr>effects := effects st @
                     [ApproveSuggestionForStep (testId st) sid (suggested_selector sug)],
                  healingSuggestions :=
                    map (\<lambda>s. if step_index s = step_index sug
                              then s\<lparr>auto_approved := True\<rparr> else s)
                        (healingSuggestions st),
                  stepStatuses :=
                    map (\<lambda>s. if ss_index s = step_index sug
                              then s\<lparr>ss_selector := Some (suggested_selector sug),
                                     ss_original_selector := Some (original_selector sug)\<rparr>
                              else s)
                        (stepStatuses st),
                  isHealingProcessing := False\<rparr>
          else st\<lparr>effects := effects st @
                     [ApproveSuggestionForStep (testId st) sid (suggested_selector sug)],
                  error := Some ''Failed to apply healing suggestion'',
                  isHealingProcessing := False\<rparr>)"
  by (simp add: handleApproveHealing_def approve_target_def Let_def split: option.splits)

lemma approve_frame [simp]:
  "testId (handleApproveHealing api captured sug st) = testId st"
  "test (handleApproveHealing api captured sug st) = test st"
  "runStatus (handleApproveHealing api captured sug st) = runStatus st"
  "ws (handleApproveHealing api captured sug st) = ws st"
  "socket_open (handleApproveHealing api captured sug st) = socket_open st"
  "metrics (handleApproveHealing api captured sug st) = metrics st"
  "pendingApproval (handleApproveHealing api captured sug st) = pendingApproval st"
  "registered (handleApproveHealing api captured sug st) = registered st"
  "loading (handleApproveHealing api captured sug st) = loading st"
  "connecting (handleApproveHealing api captured sug st) = connecting st"
  "deleting (handleApproveHealing api captured sug st) = deleting st"
  "refreshing (handleApproveHealing api captured sug st) = refreshing st"
  by (simp_all add: approve_cases split: option.splits)

lemma approve_step_identity [simp]:
  "map step_identity (stepStatuses (handleApproveHealing api captured sug st))
     = map step_identity (stepStatuses st)"
  by (simp add: approve_cases step_identity_def split: option.splits)

lemma approve_ss_index [simp]:
  "map ss_index (stepStatuses (handleApproveHealing api captured sug st))
     = map ss_index (stepStatuses st)"
  by (simp add: approve_cases split: option.splits)

lemma approve_length [simp]:
  "length (stepStatuses (handleApproveHealing api captured sug st)) = length (stepStatuses st)"
  by (simp add: approve_cases split: option.splits)

lemma approve_metrics_commute:
  "handleApproveHealing api captured sug (st\<lparr>metrics := m\<rparr>)
     = (handleApproveHealing api captured sug st)\<lparr>metrics := m\<rparr>"
  by (simp add: approve_cases split: option.splits)

lemma fold_approve_frame [simp]:
  "runStatus (fold (handleApproveHealing api captured) sugs st) = runStatus st"
  "socket_open (fold (handleApproveHealing api captured) sugs st) = socket_open st"
  "ws (fold (handleApproveHealing api captured) sugs st) = ws st"
  "loading (fold (handleApproveHealing api captured) sugs st) = loading st"
  "deleting (fold (handleApproveHealing api captured) sugs st) = deleting st"
  "refreshing (fold (handleApproveHealing api captured) sugs st) = refreshing st"
  "map step_identity (stepStatuses (fold (handleApproveHealing api captured) sugs st))
     = map step_identity (stepStatuses st)"
  "map ss_index (stepStatuses (fold (handleApproveHealing api captured) sugs st))
     = map ss_index (stepStatuses st)"
  by (induction sugs arbitrary: st) simp_all

lemma fold_approve_length [simp]:
  "length (stepStatuses (fold (handleApproveHealing api captured) sugs st))
     = length (stepStatuses st)"
  by (induction sugs arbitrary: st) simp_all

lemma fold_approve_metrics_commute:
  "fold (handleApproveHealing api captured) sugs (st\<lparr>metrics := m\<rparr>)
     = (fold (handleApproveHealing api captured) sugs st)\<lparr>metrics := m\<rparr>"
  by (induction sugs arbitrary: st) (simp_all add: approve_metrics_commute)

lemma approve_suggestions:
  "s' \<in> set (healingSuggestions (handleApproveHealing api captured sug st)) \<Longrightarrow>
     s' \<in> set (healingSuggestions st)
     \<or> (\<exists>s \<in> set (healingSuggestions st). s' = s\<lparr>auto_approved := True\<rparr>)"
  by (auto simp add: approve_cases split: option.splits if_splits)

lemma fold_approve_suggestions:
  "s' \<in> set (healingSuggestions (fold (handleApproveHealing api captured) sugs st)) \<Longrightarrow>
     s' \<in> set (healingSuggestions st)
     \<or> (\<exists>s \<in> set (healingSuggestions st). s' = s\<lparr>auto_approved := True\<rparr>)"
proof (induction sugs arbitrary: st)
  case Nil
  then show ?case by simp
next
  case (Cons sug sugs)
  from Cons.prems have
    "s' \<in> set (healingSuggestions (fold (handleApproveHealing api captured) sugs
                  (handleApproveHealing api captured sug st)))"
    by simp
  from Cons.IH [OF this] show ?case
  proof
    assume "s' \<in> set (healingSuggestions (handleApproveHealing api captured sug st))"
    then show ?thesis by (rule approve_suggestions)
  next
    assume "\<exists>s \<in> set (healingSuggestions (handleApproveHealing api captured sug st)).
              s' = s\<lparr>auto_approved := True\<rparr>"
    then obtain s where s: "s \<in> set (healingSuggestions (handleApproveHealing api captured sug st))"
      and eq: "s' = s\<lparr>auto_approved := True\<rparr>" by blast
    from approve_suggestions [OF s] show ?thesis
    proof
      assume "s \<in> set (healingSuggestions st)"
      with eq show ?thesis by blast
    next
      assume "\<exists>t \<in> set (healingSuggestions st). s = t\<lparr>auto_approved := True\<rparr>"
      then obtain t where "t \<in> set (healingSuggestions st)" "s = t\<lparr>auto_approved := True\<rparr>"
        by blast
      with eq have "s' = t\<lparr>auto_approved := True\<rparr>" by simp
      with \<open>t \<in> set (healingSuggestions st)\<close> show ?thesis by blast
    qed
  qed
qed


lemma perform_suggestions:
  "s' \<in> set (healingSuggestions (perform api a st)) \<Longrightarrow>
     s' \<in> set (healingSuggestions st)
     \<or> a = Deliver (EvHealing s')
     \<or> (manual_approval a
         \<and> (\<exists>s \<in> set (healingSuggestions st). s' = s\<lparr>auto_approved := True\<rparr>))"
proof (cases a)
  case (Deliver ev)
  assume "s' \<in> set (healingSuggestions (perform api a st))"
  with Deliver show ?thesis
    by (cases ev) (auto simp add: handler_defs Let_def split: if_splits)
next
  case (SelectTab t)
  assume "s' \<in> set (healingSuggestions (perform api a st))"
  with SelectTab show ?thesis by (cases t) simp_all
next
  case (ApproveHealing sug)
  assume "s' \<in> set (healingSuggestions (perform api a st))"
  with ApproveHealing show ?thesis using approve_suggestions by simp
next
  case ApproveAllHealing
  assume "s' \<in> set (healingSuggestions (perform api a st))"
  with ApproveAllHealing show ?thesis
    using fold_approve_suggestions by (simp add: handleApproveAllHealing_def)
qed (auto simp add: loadTest_def startRun_def startRun_connected_def stopRun_def
       handleApprovalResponse_def deleteStep_def deleteStep_deleted_def deleteStep_fetched_def
       handleRejectHealing_def split: option.splits if_splits)

subsection \<open>Indexed step lists\<close>

lemma indexed_to_step_statuses: "indexed (to_step_statuses steps)"
proof -
  have len: "length (to_step_statuses steps) = length steps"
    by (simp add: to_step_statuses_def)
  have "map ss_index (to_step_statuses steps) = map (int \<circ> fst) (enumerate 0 steps)"
    by (simp add: to_step_statuses_def to_step_status_def o_def)
  also have "\<dots> = map int (map fst (enumerate 0 steps))" by (simp only: map_map)
  also have "\<dots> = map int [0..<length steps]" by (simp only: map_fst_enumerate add_0)
  finally show ?thesis unfolding indexed_def len .
qed



lemma indexed_loadTest:
  "indexed (stepStatuses st) \<Longrightarrow> indexed (stepStatuses (loadTest res st))"
  by (simp add: loadTest_def indexed_to_step_statuses split: option.splits)

lemma indexed_perform:
  "indexed (stepStatuses st) \<Longrightarrow> indexed (stepStatuses (perform api a st))"
proof (cases a)
  case (Deliver ev)
  assume "indexed (stepStatuses st)"
  with Deliver show ?thesis
    by (cases ev)
       (simp_all add: indexed_def handler_defs Let_def
          o_def if_distrib cong: if_cong)
next
  case (SelectTab t)
  assume "indexed (stepStatuses st)"
  with SelectTab show ?thesis by (cases t) simp_all
next
  case (TestLoaded res)
  assume "indexed (stepStatuses st)"
  with TestLoaded show ?thesis by (simp add: indexed_loadTest)
next
  case (TestFetched res)
  assume "indexed (stepStatuses st)"
  with TestFetched show ?thesis
    by (simp add: deleteStep_fetched_def indexed_to_step_statuses split: option.splits)
qed (simp_all add: indexed_def startRun_def startRun_connected_def stopRun_def
       handleApprovalResponse_def deleteStep_def deleteStep_deleted_def
       handleRejectHealing_def handleApproveAllHealing_def o_def
       split: option.splits)

lemma indexed_perform_all:
  "indexed (stepStatuses st) \<Longrightarrow> indexed (stepStatuses (perform_all api as st))"
  by (induction as arbitrary: st) (simp_all add: indexed_perform)

lemma indexed_initial: "indexed (stepStatuses (initial_page tid))"
  by (simp add: initial_page_def indexed_def)

text \<open>Until the loader has answered, neither a run nor a deletion can be started.\<close>

lemma nothing_without_test:
  "test st = None \<Longrightarrow> startRun st = st \<and> deleteStep stepId st = st"
  by (simp add: startRun_def deleteStep_def)

subsection \<open>What an action keeps of the step list\<close>









text \<open>
  A deletion started while the page is idle whose answers arrive after the next run has
  started does replace the step list while that run is in progress: the guard of
  \<^verbatim>\<open>deleteStep\<close> is read before its two \<^verbatim>\<open>await\<close>s only.
\<close>

lemma deletion_lands_mid_run:
  "runStatus (perform_all api_ok
      [DeleteStep ''s3'', StartRun, Connected True, StepDeleted True] loaded_page) = RRunning
   \<and> length (stepStatuses (perform_all api_ok
      [DeleteStep ''s3'', StartRun, Connected True, StepDeleted True] loaded_page)) = 3
   \<and> runStatus (perform_all api_ok
      [DeleteStep ''s3'', StartRun, Connected True, StepDeleted True,
       TestFetched (Some shortened_test)] loaded_page) = RRunning
   \<and> length (stepStatuses (perform_all api_ok
      [DeleteStep ''s3'', StartRun, Connected True, StepDeleted True,
       TestFetched (Some shortened_test)] loaded_page)) = 2"
  by (simp add: loaded_page_def loadTest_def initial_page_def login_test_def shortened_test_def
        deleteStep_def deleteStep_deleted_def deleteStep_fetched_def startRun_def
        startRun_connected_def to_step_statuses_def to_step_status_def)

subsection \<open>Metrics messages\<close>

lemma perform_metrics_commute:
  "\<not> is_metrics_message a \<Longrightarrow>
     perform api a (st\<lparr>metrics := m\<rparr>)
       = (perform api a st)\<lparr>metrics := metrics (perform api a (st\<lparr>metrics := m\<rparr>))\<rparr>"
proof (cases a)
  case (Deliver ev)
  assume "\<not> is_metrics_message a"
  with Deliver show ?thesis
    by (cases ev)
       (simp_all add: deliver_def on_screenshot_def on_step_def on_healing_def
          on_approval_request_def on_complete_def on_error_def Let_def)
next
  case (SelectTab t)
  then show ?thesis by (cases t) simp_all
next
  case (ApproveHealing sug)
  then show ?thesis by (simp add: approve_metrics_commute)
next
  case ApproveAllHealing
  then show ?thesis by (simp add: handleApproveAllHealing_def fold_approve_metrics_commute)
next
  case (TestLoaded res)
  then show ?thesis by (simp add: loadTest_def split: option.splits)
next
  case StartRun
  then show ?thesis by (simp add: startRun_def)
next
  case Rerun
  then show ?thesis by (simp add: startRun_def)
next
  case (Connected c)
  then show ?thesis by (simp add: startRun_connected_def)
next
  case StopRun
  then show ?thesis by (simp add: stopRun_def split: option.splits)
next
  case (ApprovalResponse b)
  then show ?thesis by (simp add: handleApprovalResponse_def)
next
  case (DeleteStep sid)
  then show ?thesis by (simp add: deleteStep_def)
next
  case (StepDeleted d)
  then show ?thesis by (simp add: deleteStep_deleted_def)
next
  case (TestFetched g)
  then show ?thesis by (simp add: deleteStep_fetched_def split: option.splits)
next
  case (RejectHealing sug)
  then show ?thesis by (simp add: handleRejectHealing_def)
qed

lemma metrics_message_only_metrics:
  "is_metrics_message a \<Longrightarrow> \<exists>m'. perform api a st = st\<lparr>metrics := m'\<rparr>"
proof -
  assume "is_metrics_message a"
  then obtain x where "a = Deliver (EvMetrics x)"
    by (cases a rule: is_metrics_message.cases) simp_all
  then show ?thesis
  proof (cases "registered st")
    case True
    with \<open>a = Deliver (EvMetrics x)\<close> have "perform api a st = st\<lparr>metrics := metrics st @ [x]\<rparr>"
      by (simp add: deliver_def on_metrics_def)
    then show ?thesis by blast
  next
    case False
    with \<open>a = Deliver (EvMetrics x)\<close> have "perform api a st = st\<lparr>metrics := metrics st\<rparr>"
      by (simp add: deliver_def)
    then show ?thesis by blast
  qed
qed

lemma drop_metrics_general:
  "\<exists>m'. perform_all api (filter (\<lambda>a. \<not> is_metrics_message a) as) (st\<lparr>metrics := m\<rparr>)
         = (perform_all api as st)\<lparr>metrics := m'\<rparr>"
proof (induction as arbitrary: st m)
  case Nil
  show ?case by auto
next
  case (Cons a as)
  show ?case
  proof (cases "is_metrics_message a")
    case True
    then obtain m1 where m1: "perform api a st = st\<lparr>metrics := m1\<rparr>"
      using metrics_message_only_metrics by blast
    have "st\<lparr>metrics := m\<rparr> = (perform api a st)\<lparr>metrics := m\<rparr>"
      by (simp add: m1)
    with Cons.IH [where st = "perform api a st" and m = m] True show ?thesis by simp
  next
    case False
    then obtain m1 where
      "perform api a (st\<lparr>metrics := m\<rparr>) = (perform api a st)\<lparr>metrics := m1\<rparr>"
      using perform_metrics_commute by blast
    with Cons.IH [where st = "perform api a st" and m = m1] False show ?thesis by simp
  qed
qed

lemma drop_metrics:
  "perform_all api (filter (\<lambda>a. \<not> is_metrics_message a) as) st
     = (perform_all api as st)
         \<lparr>metrics := metrics (perform_all api (filter (\<lambda>a. \<not> is_metrics_message a) as) st)\<rparr>"
proof -
  obtain m' where
    eq: "perform_all api (filter (\<lambda>a. \<not> is_metrics_message a) as) (st\<lparr>metrics := metrics st\<rparr>)
       = (perform_all api as st)\<lparr>metrics := m'\<rparr>"
    using drop_metrics_general by blast
  then have "perform_all api (filter (\<lambda>a. \<not> is_metrics_message a) as) st
       = (perform_all api as st)\<lparr>metrics := m'\<rparr>" by simp
  then show ?thesis by simp
qed

lemma inline_metrics_Some:
  "inline_metrics st i = Some x \<Longrightarrow>
     i < length (stepStatuses st) \<and> ss_type (stepStatuses st ! i) = ''navigate''
     \<and> pm_step_index x = int i \<and> x \<in> set (metrics st)"
  by (auto simp add: inline_metrics_def find_Some_iff split: if_splits option.splits)

subsection \<open>Terminal messages\<close>

text \<open>
  The handlers of complete and of error disconnect the socket and clear the socket
  variable. No handler is guarded: a message handed over afterwards is handled like any
  other, so that an error after a successful completion leaves the run failed.
\<close>

lemma terminal_handlers_disconnect:
  "effects (on_complete success message st) = effects st @ [WsDisconnect]
   \<and> ws (on_complete success message st) = None
   \<and> effects (on_error message st) = effects st @ [WsDisconnect]
   \<and> ws (on_error message st) = None"
  by (simp add: on_complete_def on_error_def)

lemma handlers_unguarded:
  "registered st \<Longrightarrow>
     runStatus (deliver (EvError message') (deliver (EvComplete True message) st)) = RFailed"
  by (simp add: deliver_def on_complete_def on_error_def)

subsection \<open>Approval responses\<close>

lemma responses_fold:
  "effects (fold handleApprovalResponse bs st) =
     effects st @ (if ws st \<noteq> None \<and> pendingApproval st \<noteq> None \<and> bs \<noteq> []
                   then [WsSend ''approval_response'' (hd bs)] else [])"
proof (induction bs arbitrary: st)
  case Nil
  then show ?case by simp
next
  case (Cons b bs)
  show ?case
    by (simp add: Cons.IH) (simp add: handleApprovalResponse_def)
qed

section \<open>The claims\<close>

subsection \<open>C1: the auto-approved flag\<close>

text \<open>
  Claim C1, as stated, fails. In the login run a suggestion of confidence 0.5 arrives
  for step 2 with \<open>auto_approved = false\<close>; the policy has auto-approval enabled with
  threshold 0.85. The user applies the suggestion (\<^verbatim>\<open>handleApproveHealing\<close>, the call of
  the REST client succeeds): the suggestion held by the page now has
  \<open>auto_approved = true\<close>, although the decision rule is false for its confidence.
\<close>

theorem C1_manual_approval_counterexample:
  "healingSuggestions healing_page = [signin_suggestion (1 / 2) False]
   \<and> runStatus healing_page = RRunning
   \<and> healingSuggestions (perform api_ok (ApproveHealing (signin_suggestion (1 / 2) False)) healing_page)
       = [signin_suggestion (1 / 2) True]
   \<and> auto_approved (signin_suggestion (1 / 2) True)
   \<and> confidence (signin_suggestion (1 / 2) True) < auto_approve_threshold login_policy
   \<and> \<not> decision_rule login_policy (confidence (signin_suggestion (1 / 2) True))"
  by (simp add: healing_page_def running_page_eval handler_defs example_defs
        handleApproveHealing_def js_index_def decision_rule_def Let_def)

text \<open>
  Claim C1, amended. The page stores the flag of a suggestion as the healing message
  delivers it. \<^verbatim>\<open>handleApproveHealing\<close> sets \<open>auto_approved = true\<close> for exactly the held
  suggestions whose step index is the approved one, whatever their confidence, when the
  entry at that position has a non-empty id and the persistence call succeeds; otherwise
  it changes no flag; it never changes a confidence. After any action of the page, a held
  suggestion was held before, or is the one a healing message just delivered, or is a
  suggestion held before with its flag set by a manual approval
  (\<^verbatim>\<open>handleApproveHealing\<close>, \<^verbatim>\<open>handleApproveAllHealing\<close>).
\<close>

theorem C1_auto_approved_flag:
  "healingSuggestions (on_healing h st) = healingSuggestions st @ [h]
   \<and> map auto_approved (healingSuggestions (handleApproveHealing api captured sug st))
       = map (\<lambda>s. auto_approved s
                  \<or> (step_index s = step_index sug
                      \<and> (\<exists>sid. approve_target captured sug = Some sid
                                \<and> api (testId st) sid (suggested_selector sug))))
             (healingSuggestions st)
   \<and> map confidence (healingSuggestions (handleApproveHealing api captured sug st))
       = map confidence (healingSuggestions st)
   \<and> (\<forall>s' \<in> set (healingSuggestions (perform api a st)).
         s' \<in> set (healingSuggestions st)
         \<or> a = Deliver (EvHealing s')
         \<or> (manual_approval a
             \<and> (\<exists>s \<in> set (healingSuggestions st). s' = s\<lparr>auto_approved := True\<rparr>)))"
proof -
  have "healingSuggestions (on_healing h st) = healingSuggestions st @ [h]"
    by (simp add: on_healing_def Let_def)
  moreover have
    "map auto_approved (healingSuggestions (handleApproveHealing api captured sug st))
       = map (\<lambda>s. auto_approved s
                  \<or> (step_index s = step_index sug
                      \<and> (\<exists>sid. approve_target captured sug = Some sid
                                \<and> api (testId st) sid (suggested_selector sug))))
             (healingSuggestions st)"
    by (simp add: approve_cases split: option.splits)
  moreover have "map confidence (healingSuggestions (handleApproveHealing api captured sug st))
       = map confidence (healingSuggestions st)"
    by (simp add: approve_cases o_def if_distrib split: option.splits cong: if_cong)
  ultimately show ?thesis using perform_suggestions by blast
qed

text \<open>Witness for C1: the approval of the counterexample, and the delivery before it.\<close>

theorem C1_flag_witness:
  "map auto_approved (healingSuggestions
       (handleApproveHealing api_ok (stepStatuses healing_page)
          (signin_suggestion (1 / 2) False) healing_page)) = [True]
   \<and> map confidence (healingSuggestions
       (handleApproveHealing api_ok (stepStatuses healing_page)
          (signin_suggestion (1 / 2) False) healing_page)) = [1 / 2]
   \<and> healingSuggestions (on_healing (signin_suggestion (1 / 2) False) running_page)
       = [signin_suggestion (1 / 2) False]"
  using C1_auto_approved_flag [of "signin_suggestion (1 / 2) False" running_page api_ok
          "stepStatuses healing_page" "signin_suggestion (1 / 2) False"
          "ApproveHealing (signin_suggestion (1 / 2) False)"]
        C1_auto_approved_flag [of "signin_suggestion (1 / 2) False" healing_page api_ok
          "stepStatuses healing_page" "signin_suggestion (1 / 2) False"
          "ApproveHealing (signin_suggestion (1 / 2) False)"]
  by (simp add: healing_page_def running_page_eval handler_defs example_defs
        approve_target_def js_index_def Let_def)

subsection \<open>C2: stopping a run\<close>

text \<open>
  Claim C2, as stated, fails. With step 1 of the login run in flight, \<^verbatim>\<open>stopRun\<close> leaves
  the run-level status \<open>idle\<close>, not \<open>stopped\<close>.
\<close>

theorem C2_stop_status_counterexample:
  "runStatus in_flight_page = RRunning
   \<and> map ss_status (stepStatuses in_flight_page) = [SPassed, SRunning, SPending]
   \<and> runStatus (stopRun in_flight_page) = RIdle
   \<and> run_status_str (runStatus (stopRun in_flight_page)) \<noteq> ''stopped''"
  by (simp add: in_flight_page_def running_page_eval handler_defs example_defs stopRun_def)

text \<open>
  Claim C2, amended. \<^verbatim>\<open>stopRun\<close> sets the run-level status to \<open>idle\<close> (the status of the
  test-run page has no value \<open>stopped\<close>), clears the socket variable and, when a socket
  was set, disconnects it, sending nothing. It leaves the step-status list as it is: no
  step, the one in flight included, is recorded as passed or failed by the stop.
\<close>

theorem C2_stopRun_sets_idle:
  "runStatus (stopRun st) = RIdle
   \<and> run_status_str (runStatus (stopRun st)) = ''idle''
   \<and> (\<forall>r. run_status_str r \<noteq> ''stopped'')
   \<and> stepStatuses (stopRun st) = stepStatuses st
   \<and> ws (stopRun st) = None
   \<and> effects (stopRun st) = effects st @ (if ws st = None then [] else [WsDisconnect])
   \<and> socket_open (stopRun st) = (socket_open st \<and> ws st = None)"
proof -
  have "run_status_str r \<noteq> ''stopped''" for r by (cases r) simp_all
  then show ?thesis by (simp add: stopRun_def split: option.splits)
qed

subsection \<open>C4: message types\<close>

text \<open>
  Claim C4, as stated, fails. \<open>step\<close> is one of the eight kinds and is not in the declared
  union \<^verbatim>\<open>WebSocketMessageType\<close>; \<open>chat\<close> is in the union and is none of the eight; and
  \<^verbatim>\<open>startRun\<close> registers no handler for \<open>status\<close>.
\<close>

theorem C4_declared_types_counterexample:
  "''step'' \<in> set spec_message_types \<and> ''step'' \<notin> set WebSocketMessageType
   \<and> ''chat'' \<in> set WebSocketMessageType \<and> ''chat'' \<notin> set spec_message_types
   \<and> ''status'' \<in> set spec_message_types \<and> ''status'' \<notin> set startRun_handler_types"
  by (simp add: startRun_handler_types_eval spec_message_types_def WebSocketMessageType_def)

text \<open>
  Claim C4, amended. On the stream of a test run the page handles exactly seven message
  types, the eight kinds without \<open>status\<close>: \<^verbatim>\<open>startRun\<close> registers a handler for each of
  the seven and for no other type. A message of one of the seven types goes to the
  handler of its type, and for each of the seven there is a message that changes the
  page; a message of any other type changes nothing; before the handlers are registered
  no message changes anything, and they are registered when the \<^verbatim>\<open>socket.connect()\<close> of
  \<^verbatim>\<open>startRun\<close> has returned. The declared union \<^verbatim>\<open>WebSocketMessageType\<close> is the six
  kinds chat, status, screenshot, action, complete and error, of which status,
  screenshot, complete and error are among the eight.
\<close>

theorem C4_message_types:
  "startRun_handler_types =
     [''screenshot'', ''step'', ''metrics'', ''healing'', ''approval_request'',
      ''complete'', ''error'']
   \<and> set startRun_handler_types = set spec_message_types - {''status''}
   \<and> on_event (EvScreenshot img) st = on_screenshot img st
   \<and> on_event (EvStep step) st = on_step step st
   \<and> on_event (EvMetrics metricsData) st = on_metrics metricsData st
   \<and> on_event (EvHealing healingData) st = on_healing healingData st
   \<and> on_event (EvApprovalRequest approvalData) st = on_approval_request approvalData st
   \<and> on_event (EvComplete success message) st = on_complete success message st
   \<and> on_event (EvError message) st = on_error message st
   \<and> (\<forall>t \<in> set startRun_handler_types.
         \<exists>ev' st'. event_type ev' = t \<and> registered st' \<and> deliver ev' st' \<noteq> st')
   \<and> (event_type ev \<in> set startRun_handler_types \<or> on_event ev st = st)
   \<and> (registered st \<longrightarrow> deliver ev st = on_event ev st)
   \<and> (\<not> registered st \<longrightarrow> deliver ev st = st)
   \<and> registered (startRun st) = registered st
   \<and> registered (startRun_connected False st) = registered st
   \<and> registered (startRun_connected True st) = (registered st \<or> 0 < connecting st)
   \<and> (test st \<noteq> None \<longrightarrow> registered (startRun_connected True (startRun st)))
   \<and> set WebSocketMessageType
       = {''chat'', ''status'', ''screenshot'', ''action'', ''complete'', ''error''}
   \<and> set WebSocketMessageType \<inter> set spec_message_types
       = {''status'', ''screenshot'', ''complete'', ''error''}"
proof -
  have reg: "registered running_page" by (simp add: running_page_eval)
  have p1: "\<exists>ev' st'. event_type ev' = ''screenshot'' \<and> registered st' \<and> deliver ev' st' \<noteq> st'"
  proof (intro exI conjI)
    show "event_type (EvScreenshot ''img'') = ''screenshot''" by simp
    show "registered running_page" by (rule reg)
    have "screenshot (deliver (EvScreenshot ''img'') running_page) \<noteq> screenshot running_page"
      by (simp add: running_page_eval handler_defs)
    then show "deliver (EvScreenshot ''img'') running_page \<noteq> running_page" by auto
  qed
  have p2: "\<exists>ev' st'. event_type ev' = ''step'' \<and> registered st' \<and> deliver ev' st' \<noteq> st'"
  proof (intro exI conjI)
    show "event_type (EvStep (step_event 0 SPassed)) = ''step''" by simp
    show "registered running_page" by (rule reg)
    have "stepStatuses (deliver (EvStep (step_event 0 SPassed)) running_page) \<noteq> stepStatuses running_page"
      by (simp add: running_page_eval handler_defs step_event_def)
    then show "deliver (EvStep (step_event 0 SPassed)) running_page \<noteq> running_page" by auto
  qed
  have p3: "\<exists>ev' st'. event_type ev' = ''metrics'' \<and> registered st' \<and> deliver ev' st' \<noteq> st'"
  proof (intro exI conjI)
    show "event_type (EvMetrics click_metrics) = ''metrics''" by simp
    show "registered running_page" by (rule reg)
    have "metrics (deliver (EvMetrics click_metrics) running_page) \<noteq> metrics running_page"
      by (simp add: running_page_eval handler_defs)
    then show "deliver (EvMetrics click_metrics) running_page \<noteq> running_page" by auto
  qed
  have p4: "\<exists>ev' st'. event_type ev' = ''healing'' \<and> registered st' \<and> deliver ev' st' \<noteq> st'"
  proof (intro exI conjI)
    show "event_type (EvHealing (signin_suggestion 1 True)) = ''healing''" by simp
    show "registered running_page" by (rule reg)
    have "healingSuggestions (deliver (EvHealing (signin_suggestion 1 True)) running_page) \<noteq> healingSuggestions running_page"
      by (simp add: running_page_eval handler_defs Let_def)
    then show "deliver (EvHealing (signin_suggestion 1 True)) running_page \<noteq> running_page" by auto
  qed
  have p5: "\<exists>ev' st'. event_type ev' = ''approval_request'' \<and> registered st' \<and> deliver ev' st' \<noteq> st'"
  proof (intro exI conjI)
    show "event_type (EvApprovalRequest signin_request) = ''approval_request''" by simp
    show "registered running_page" by (rule reg)
    have "pendingApproval (deliver (EvApprovalRequest signin_request) running_page) \<noteq> pendingApproval running_page"
      by (simp add: running_page_eval handler_defs)
    then show "deliver (EvApprovalRequest signin_request) running_page \<noteq> running_page" by auto
  qed
  have p6: "\<exists>ev' st'. event_type ev' = ''complete'' \<and> registered st' \<and> deliver ev' st' \<noteq> st'"
  proof (intro exI conjI)
    show "event_type (EvComplete True ''done'') = ''complete''" by simp
    show "registered running_page" by (rule reg)
    have "runStatus (deliver (EvComplete True ''done'') running_page) \<noteq> runStatus running_page"
      by (simp add: running_page_eval handler_defs)
    then show "deliver (EvComplete True ''done'') running_page \<noteq> running_page" by auto
  qed
  have p7: "\<exists>ev' st'. event_type ev' = ''error'' \<and> registered st' \<and> deliver ev' st' \<noteq> st'"
  proof (intro exI conjI)
    show "event_type (EvError ''lost'') = ''error''" by simp
    show "registered running_page" by (rule reg)
    have "runStatus (deliver (EvError ''lost'') running_page) \<noteq> runStatus running_page"
      by (simp add: running_page_eval handler_defs)
    then show "deliver (EvError ''lost'') running_page \<noteq> running_page" by auto
  qed
  have changes: "\<forall>t \<in> set startRun_handler_types.
         \<exists>ev' st'. event_type ev' = t \<and> registered st' \<and> deliver ev' st' \<noteq> st'"
    unfolding startRun_handler_types_eval using p1 p2 p3 p4 p5 p6 p7 by simp
  have unhandled: "event_type ev \<in> set startRun_handler_types \<or> on_event ev st = st"
    using on_event_unhandled [of ev st] by blast
  have s1: "set startRun_handler_types = set spec_message_types - {''status''}"
    by (auto simp add: startRun_handler_types_eval spec_message_types_def)
  have s2: "set WebSocketMessageType
         = {''chat'', ''status'', ''screenshot'', ''action'', ''complete'', ''error''}"
    by (simp add: WebSocketMessageType_def)
  have s3: "set WebSocketMessageType \<inter> set spec_message_types
         = {''status'', ''screenshot'', ''complete'', ''error''}"
    by (auto simp add: spec_message_types_def WebSocketMessageType_def)
  have d1: "registered st \<longrightarrow> deliver ev st = on_event ev st"
    by (simp add: deliver_def)
  have d2: "\<not> registered st \<longrightarrow> deliver ev st = st"
    by (simp add: deliver_def)
  have r1: "registered (startRun st) = registered st"
    by (simp add: startRun_def)
  have r2: "registered (startRun_connected False st) = registered st"
    by (simp add: startRun_connected_def)
  have r3: "registered (startRun_connected True st) = (registered st \<or> 0 < connecting st)"
    by (simp add: startRun_connected_def)
  have r4: "test st \<noteq> None \<longrightarrow> registered (startRun_connected True (startRun st))"
    by (simp add: startRun_connected_def startRun_def)
  show ?thesis
    by (intro conjI;
        rule startRun_handler_types_eval s1 on_event_simps changes unhandled d1 d2
             r1 r2 r3 r4 s2 s3)
qed

text \<open>Witness for C4: a step message before and after the handlers are registered, and a
  status message.\<close>

theorem C4_handled_witness:
  "''step'' \<in> set startRun_handler_types
   \<and> registered running_page
   \<and> deliver (EvStep (step_event 0 SPassed)) running_page
       = on_step (step_event 0 SPassed) running_page
   \<and> map ss_status (stepStatuses (deliver (EvStep (step_event 0 SPassed)) running_page))
       = [SPassed, SPending, SPending]
   \<and> \<not> registered loaded_page
   \<and> deliver (EvStep (step_event 0 SPassed)) loaded_page = loaded_page
   \<and> event_type (EvOther ''status'') \<notin> set startRun_handler_types
   \<and> deliver (EvOther ''status'') running_page = running_page
   \<and> test loaded_page \<noteq> None
   \<and> registered (startRun_connected True (startRun loaded_page))"
proof -
  have r: "registered running_page" by (simp add: running_page_eval)
  have l: "\<not> registered loaded_page"
    by (simp add: loaded_page_def loadTest_def initial_page_def)
  have s: "event_type (EvOther ''status'') \<notin> set startRun_handler_types"
    by (simp add: startRun_handler_types_eval)
  from C4_message_types [of "''img''" running_page "step_event 0 SPassed" click_metrics
         "signin_suggestion 1 True" signin_request True "''done''" "EvOther ''status''"] r s
  have a: "deliver (EvOther ''status'') running_page = running_page
           \<and> on_event (EvStep (step_event 0 SPassed)) running_page
               = on_step (step_event 0 SPassed) running_page"
    by auto
  from C4_message_types [of "''img''" running_page "step_event 0 SPassed" click_metrics
         "signin_suggestion 1 True" signin_request True "''done''"
         "EvStep (step_event 0 SPassed)"] r a
  have b: "deliver (EvStep (step_event 0 SPassed)) running_page
             = on_step (step_event 0 SPassed) running_page"
    by auto
  from C4_message_types [of "''img''" loaded_page "step_event 0 SPassed" click_metrics
         "signin_suggestion 1 True" signin_request True "''done''"
         "EvStep (step_event 0 SPassed)"] l
  have c: "deliver (EvStep (step_event 0 SPassed)) loaded_page = loaded_page"
    by auto
  have d: "map ss_status (stepStatuses (on_step (step_event 0 SPassed) running_page))
       = [SPassed, SPending, SPending]"
    by (simp add: running_page_eval on_step_def step_event_def)
  have e: "''step'' \<in> set startRun_handler_types"
    by (simp add: startRun_handler_types_eval)
  have f: "test loaded_page \<noteq> None"
    by (simp add: loaded_page_def loadTest_def initial_page_def)
  from C4_message_types [of "''img''" loaded_page "step_event 0 SPassed" click_metrics
         "signin_suggestion 1 True" signin_request True "''done''"
         "EvStep (step_event 0 SPassed)"] f
  have g: "registered (startRun_connected True (startRun loaded_page))"
    by blast
  from a b c d e f g r l s show ?thesis by simp
qed

subsection \<open>C5: approval responses\<close>

text \<open>
  Claim C5. \<^verbatim>\<open>handleApprovalResponse\<close> without a socket or without a pending approval
  request changes nothing and sends nothing. With both it sends exactly one
  \<open>approval_response\<close> carrying the decision and clears the pending request, so that
  calling it again changes nothing: of any number of consecutive calls only the first
  sends. The pending request is the one the last \<open>approval_request\<close> message delivered.
\<close>

theorem C5_approval_response:
  "(ws st = None \<or> pendingApproval st = None
      \<longrightarrow> handleApprovalResponse approved st = st)
   \<and> (ws st \<noteq> None \<and> pendingApproval st \<noteq> None
      \<longrightarrow> effects (handleApprovalResponse approved st)
            = effects st @ [WsSend ''approval_response'' approved]
        \<and> pendingApproval (handleApprovalResponse approved st) = None
        \<and> handleApprovalResponse again (handleApprovalResponse approved st)
            = handleApprovalResponse approved st)
   \<and> effects (fold handleApprovalResponse bs st)
       = effects st @ (if ws st \<noteq> None \<and> pendingApproval st \<noteq> None \<and> bs \<noteq> []
                       then [WsSend ''approval_response'' (hd bs)] else [])
   \<and> pendingApproval (on_approval_request request st) = Some request"
  using responses_fold [of bs st]
  by (simp add: handleApprovalResponse_def on_approval_request_def)

text \<open>Witness for C5: no request pending; a request rejected once; three calls in a row.\<close>

theorem C5_response_witness:
  "handleApprovalResponse True running_page = running_page
   \<and> pendingApproval (deliver (EvApprovalRequest signin_request) running_page)
       = Some signin_request
   \<and> effects (handleApprovalResponse False
        (deliver (EvApprovalRequest signin_request) running_page))
       = [ApiGetTest ''t1'', WsConnect ''t1'', WsSend ''approval_response'' False]
   \<and> effects (fold handleApprovalResponse [False, True, True]
        (deliver (EvApprovalRequest signin_request) running_page))
       = [ApiGetTest ''t1'', WsConnect ''t1'', WsSend ''approval_response'' False]"
  using C5_approval_response [of running_page True True "[]" signin_request]
        C5_approval_response [of "deliver (EvApprovalRequest signin_request) running_page" False True
                   "[False, True, True]" signin_request]
  by (simp add: running_page_eval handler_defs)

subsection \<open>C6: writing a healed locator back\<close>




subsection \<open>C7: metrics messages\<close>

text \<open>
  Claim C7, as stated, fails. A metrics message for step 2 of the login run, a click
  step, is stored like any other: the metrics list then holds a record of a step that is
  not a navigate step (the steps view does not show it under the step).
\<close>

theorem C7_click_metrics_counterexample:
  "metrics (deliver (EvMetrics click_metrics) running_page) = [click_metrics]
   \<and> pm_step_index click_metrics = 2
   \<and> ss_type (stepStatuses running_page ! 2) = ''click''
   \<and> inline_metrics (deliver (EvMetrics click_metrics) running_page) 2 = None"
  by (simp add: running_page_eval handler_defs example_defs inline_metrics_def)

text \<open>
  Claim C7, amended. Processing a metrics message appends that one record to the metrics
  list, whatever step it names, and changes nothing else: run status, step statuses,
  healing suggestions and error message are as before. The steps view shows a record
  under a step only when the step is a navigate step and the record names its position.
  Leaving the metrics messages out of any sequence of actions changes nothing but the
  metrics list: run status, step statuses and error message end the same.
\<close>

theorem C7_metrics_frame:
  "on_metrics m st = st\<lparr>metrics := metrics st @ [m]\<rparr>
   \<and> runStatus (on_metrics m st) = runStatus st
   \<and> stepStatuses (on_metrics m st) = stepStatuses st
   \<and> healingSuggestions (on_metrics m st) = healingSuggestions st
   \<and> error (on_metrics m st) = error st
   \<and> (inline_metrics st i = Some x \<longrightarrow>
        i < length (stepStatuses st) \<and> ss_type (stepStatuses st ! i) = ''navigate''
        \<and> pm_step_index x = int i \<and> x \<in> set (metrics st))
   \<and> perform_all api (filter (\<lambda>a. \<not> is_metrics_message a) as) st
       = (perform_all api as st)
           \<lparr>metrics := metrics (perform_all api (filter (\<lambda>a. \<not> is_metrics_message a) as) st)\<rparr>
   \<and> runStatus (perform_all api (filter (\<lambda>a. \<not> is_metrics_message a) as) st)
       = runStatus (perform_all api as st)
   \<and> stepStatuses (perform_all api (filter (\<lambda>a. \<not> is_metrics_message a) as) st)
       = stepStatuses (perform_all api as st)
   \<and> error (perform_all api (filter (\<lambda>a. \<not> is_metrics_message a) as) st)
       = error (perform_all api as st)"
proof -
  let ?quiet = "perform_all api (filter (\<lambda>a. \<not> is_metrics_message a) as) st"
  have eq: "?quiet = (perform_all api as st)\<lparr>metrics := metrics ?quiet\<rparr>"
    by (rule drop_metrics)
  have "runStatus ?quiet = runStatus ((perform_all api as st)\<lparr>metrics := metrics ?quiet\<rparr>)"
       "stepStatuses ?quiet = stepStatuses ((perform_all api as st)\<lparr>metrics := metrics ?quiet\<rparr>)"
       "error ?quiet = error ((perform_all api as st)\<lparr>metrics := metrics ?quiet\<rparr>)"
    using eq by simp_all
  then have fields: "runStatus ?quiet = runStatus (perform_all api as st)"
       "stepStatuses ?quiet = stepStatuses (perform_all api as st)"
       "error ?quiet = error (perform_all api as st)"
    by simp_all
  show ?thesis
    using eq fields inline_metrics_Some [of st i x]
    by (simp add: on_metrics_def)
qed

text \<open>Witness for C7: metrics shown under the navigate step, and a run with and without
  its metrics message.\<close>

theorem C7_metrics_witness:
  "inline_metrics (deliver (EvMetrics navigate_metrics) running_page) 0 = Some navigate_metrics
   \<and> ss_type (stepStatuses (deliver (EvMetrics navigate_metrics) running_page) ! 0) = ''navigate''
   \<and> map ss_status (stepStatuses (perform_all api_ok
        [Deliver (EvStep (step_event 0 SRunning)), Deliver (EvStep (step_event 0 SPassed))]
        running_page)) = [SPassed, SPending, SPending]
   \<and> stepStatuses (perform_all api_ok
        [Deliver (EvStep (step_event 0 SRunning)), Deliver (EvMetrics navigate_metrics),
         Deliver (EvStep (step_event 0 SPassed))] running_page)
      = stepStatuses (perform_all api_ok
        [Deliver (EvStep (step_event 0 SRunning)), Deliver (EvStep (step_event 0 SPassed))]
        running_page)"
proof -
  have inl: "inline_metrics (deliver (EvMetrics navigate_metrics) running_page) 0
               = Some navigate_metrics"
    by (simp add: running_page_eval handler_defs inline_metrics_def navigate_metrics_def
          click_metrics_def)
  have st: "map ss_status (stepStatuses (perform_all api_ok
        [Deliver (EvStep (step_event 0 SRunning)), Deliver (EvStep (step_event 0 SPassed))]
        running_page)) = [SPassed, SPending, SPending]"
    by (simp add: running_page_eval handler_defs step_event_def)
  from C7_metrics_frame [of navigate_metrics running_page 0 navigate_metrics api_ok
         "[Deliver (EvStep (step_event 0 SRunning)), Deliver (EvMetrics navigate_metrics),
           Deliver (EvStep (step_event 0 SPassed))]"]
       C7_metrics_frame [of navigate_metrics "deliver (EvMetrics navigate_metrics) running_page" 0
         navigate_metrics api_ok "[]"] inl st
  show ?thesis by simp
qed

subsection \<open>C8: the step list during a run\<close>




subsection \<open>C9: step messages\<close>

text \<open>
  Claim C9. The handler of a step message with index \<open>i\<close> keeps the length of the
  step-status list; every entry keeps its index, id, type, selector, value and original
  selector; an entry whose index is \<open>i\<close> gets the status and error of the message, every
  other entry is unchanged; when no entry has index \<open>i\<close> the page state is unchanged; and
  nothing but the step-status list changes.
\<close>

theorem C9_step_event_frame:
  "length (stepStatuses (on_step step st)) = length (stepStatuses st)
   \<and> (\<forall>k < length (stepStatuses st).
         ss_index (stepStatuses (on_step step st) ! k) = ss_index (stepStatuses st ! k)
       \<and> ss_id (stepStatuses (on_step step st) ! k) = ss_id (stepStatuses st ! k)
       \<and> ss_type (stepStatuses (on_step step st) ! k) = ss_type (stepStatuses st ! k)
       \<and> ss_selector (stepStatuses (on_step step st) ! k) = ss_selector (stepStatuses st ! k)
       \<and> ss_value (stepStatuses (on_step step st) ! k) = ss_value (stepStatuses st ! k)
       \<and> ss_original_selector (stepStatuses (on_step step st) ! k)
            = ss_original_selector (stepStatuses st ! k)
       \<and> (if ss_index (stepStatuses st ! k) = ss_index step
          then ss_status (stepStatuses (on_step step st) ! k) = ss_status step
             \<and> ss_error (stepStatuses (on_step step st) ! k) = ss_error step
          else stepStatuses (on_step step st) ! k = stepStatuses st ! k))
   \<and> ((\<forall>s \<in> set (stepStatuses st). ss_index s \<noteq> ss_index step) \<longrightarrow> on_step step st = st)
   \<and> on_step step st = st\<lparr>stepStatuses := stepStatuses (on_step step st)\<rparr>"
proof -
  have "on_step step st = st" if "\<forall>s \<in> set (stepStatuses st). ss_index s \<noteq> ss_index step"
  proof -
    have "map (\<lambda>s. if ss_index s = ss_index step
                    then s\<lparr>ss_status := ss_status step, ss_error := ss_error step\<rparr>
                    else s) (stepStatuses st) = stepStatuses st"
      using that by (intro map_idI) simp
    then show ?thesis by (simp add: on_step_def)
  qed
  then show ?thesis by (simp add: on_step_def)
qed

text \<open>Witness for C9: step 1 fails; a message for a step 9 that does not exist.\<close>

theorem C9_step_event_witness:
  "map ss_status (stepStatuses (on_step (step_event 1 SFailed) running_page))
     = [SPending, SFailed, SPending]
   \<and> stepStatuses (on_step (step_event 1 SFailed) running_page) ! 0 = stepStatuses running_page ! 0
   \<and> stepStatuses (on_step (step_event 1 SFailed) running_page) ! 2 = stepStatuses running_page ! 2
   \<and> ss_selector (stepStatuses (on_step (step_event 1 SFailed) running_page) ! 1) = Some ''#email''
   \<and> on_step (step_event 9 SFailed) running_page = running_page"
proof -
  have none: "\<forall>s \<in> set (stepStatuses running_page). ss_index s \<noteq> ss_index (step_event 9 SFailed)"
    by (simp add: running_page_eval step_event_def)
  have len: "length (stepStatuses running_page) = 3" by (simp add: running_page_eval)
  from C9_step_event_frame [of "step_event 9 SFailed" running_page] none
  have a: "on_step (step_event 9 SFailed) running_page = running_page" by blast
  from C9_step_event_frame [of "step_event 1 SFailed" running_page] len
  have all: "\<forall>k<3. if ss_index (stepStatuses running_page ! k) = ss_index (step_event 1 SFailed)
          then ss_status (stepStatuses (on_step (step_event 1 SFailed) running_page) ! k)
                 = ss_status (step_event 1 SFailed)
          else stepStatuses (on_step (step_event 1 SFailed) running_page) ! k
                 = stepStatuses running_page ! k"
    by simp
  from all [rule_format, of 0] all [rule_format, of 2] have
    "stepStatuses (on_step (step_event 1 SFailed) running_page) ! 0 = stepStatuses running_page ! 0
     \<and> stepStatuses (on_step (step_event 1 SFailed) running_page) ! 2 = stepStatuses running_page ! 2"
    by (simp add: running_page_eval step_event_def)
  moreover have "map ss_status (stepStatuses (on_step (step_event 1 SFailed) running_page))
     = [SPending, SFailed, SPending]
     \<and> ss_selector (stepStatuses (on_step (step_event 1 SFailed) running_page) ! 1) = Some ''#email''"
    by (simp add: running_page_eval step_event_def on_step_def)
  ultimately show ?thesis using a by simp
qed

subsection \<open>C10: resetting the browser store\<close>

text \<open>
  Claim C10. \<^verbatim>\<open>reset()\<close> restores exactly the initial store state (status idle, no
  screenshot, no current URL) after any finite sequence of store calls, started in any
  state; reset after reset equals reset; and the state after reset does not depend on the
  history.
\<close>

theorem C10_reset_restores_initial:
  "reset (store_run calls st) = useBrowserStore
   \<and> bs_status (reset (store_run calls st)) = BIdle
   \<and> bs_screenshot (reset (store_run calls st)) = None
   \<and> bs_currentUrl (reset (store_run calls st)) = None
   \<and> reset (reset st) = reset st
   \<and> reset (store_run calls st) = reset (store_run calls' st')"
  by (simp add: reset_is_initial useBrowserStore_def)

end
